theory Spec2Isabelle
  imports Main
begin

section \<open>JavaScript values\<close>

text \<open>
  The sources are TypeScript whose payloads are typed \<open>any\<close>: what \<open>JSON.parse\<close>
  returns, the body of a request, the answer of a fetch. Such a value is one of the
  JavaScript values below. An object is the list of its own properties in insertion
  order. A number is kept as its notation, the text that \<open>String(n)\<close> returns for it
  (\<open>0\<close>, \<open>-3\<close>, \<open>0.5\<close>, \<open>1e+21\<close>): the sources only test a number for truthiness or
  convert it to a string, and two numbers are equal exactly when their notations are
  (\<open>-0\<close> is written \<open>0\<close>).
\<close>

datatype js =
    Undefined
  | Null
  | JBool bool
  | JNum string
  | JStr string
  | JArr "js list"
  | JObj "(string \<times> js) list"

type_synonym obj = "(string \<times> js) list"

text \<open>
  \<open>!!v\<close>: the falsy values are \<open>undefined\<close>, \<open>null\<close>, \<open>false\<close>, the numbers \<open>0\<close> and
  \<open>NaN\<close>, and the empty string.
\<close>

fun truthy :: "js \<Rightarrow> bool" where
  "truthy Undefined = False"
| "truthy Null = False"
| "truthy (JBool b) = b"
| "truthy (JNum n) = (n \<noteq> ''0'' \<and> n \<noteq> ''NaN'')"
| "truthy (JStr s) = (s \<noteq> [])"
| "truthy (JArr xs) = True"
| "truthy (JObj kvs) = True"

text \<open>\<open>v == null\<close>: reading a property of such a value raises a TypeError.\<close>

fun nullish :: "js \<Rightarrow> bool" where
  "nullish Undefined = True"
| "nullish Null = True"
| "nullish v = False"

text \<open>
  \<open>v.k\<close> for a value that is not nullish and a key \<open>k\<close> that no built-in prototype
  defines (the keys read by the sources are \<open>type\<close>, \<open>run\<close>, \<open>error\<close>, \<open>message\<close>,
  \<open>output\<close>, \<open>parts\<close>, \<open>content\<close>, \<open>text\<close>, \<open>role\<close>, \<open>name\<close>, \<open>agents\<close>): an own
  property of an object, \<open>undefined\<close> otherwise.
\<close>

fun property :: "js \<Rightarrow> string \<Rightarrow> js" where
  "property (JObj kvs) k = (case map_of kvs k of None \<Rightarrow> Undefined | Some v \<Rightarrow> v)"
| "property v k = Undefined"

text \<open>\<open>v.k\<close> in general: \<open>None\<close> is the TypeError.\<close>

definition get :: "js \<Rightarrow> string \<Rightarrow> js option" where
  "get v k = (if nullish v then None else Some (property v k))"

text \<open>\<open>v?.k\<close>.\<close>

definition opt_get :: "js \<Rightarrow> string \<Rightarrow> js" where
  "opt_get v k = (if nullish v then Undefined else property v k)"

text \<open>\<open>o[k] = v\<close> on a plain object: an existing property keeps its place.\<close>

fun set_prop :: "obj \<Rightarrow> string \<Rightarrow> js \<Rightarrow> obj" where
  "set_prop [] k v = [(k, v)]"
| "set_prop (p # ps) k v = (if fst p = k then (k, v) # ps else p # set_prop ps k v)"

text \<open>Decimal notation of an array index.\<close>

fun digit :: "nat \<Rightarrow> char" where
  "digit n = char_of (48 + n)"

fun show_nat :: "nat \<Rightarrow> string" where
  "show_nat n = (if n < 10 then [digit n] else show_nat (n div 10) @ [digit (n mod 10)])"

declare show_nat.simps [simp del]

text \<open>\<open>ws.join(sep)\<close> on strings.\<close>

fun join :: "string \<Rightarrow> string list \<Rightarrow> string" where
  "join sep [] = []"
| "join sep [w] = w"
| "join sep (w # ws) = w @ sep @ join sep ws"

text \<open>
  The conversion of a value to a string, which \<open>"" + v\<close>, \<open>Array.prototype.join\<close> and
  the constructor of an error apply to a value that is not a string already; \<open>None\<close>
  is the TypeError it raises. A plain object is converted by the \<open>toString\<close> it
  inherits, to \<open>[object Object]\<close>, unless it has a property \<open>toString\<close> of its own:
  that one is found first, is not callable (it came from JSON), and no conversion is
  left. An array is converted by joining its elements with commas, \<open>null\<close> and
  \<open>undefined\<close> elements as nothing, every other element converted in turn.
\<close>

fun toString :: "js \<Rightarrow> string option" where
  "toString Undefined = Some ''undefined''"
| "toString Null = Some ''null''"
| "toString (JBool b) = Some (if b then ''true'' else ''false'')"
| "toString (JNum n) = Some n"
| "toString (JStr s) = Some s"
| "toString (JArr xs) =
     (case those (map (\<lambda>x. if nullish x then Some [] else toString x) xs) of
        None \<Rightarrow> None
      | Some ws \<Rightarrow> Some (join '','' ws))"
| "toString (JObj kvs) =
     (case map_of kvs ''toString'' of None \<Rightarrow> Some ''[object Object]'' | Some v \<Rightarrow> None)"

text \<open>
  The own enumerable properties that \<open>{...v}\<close> copies: those of an object, the
  indexed elements of an array or a string, none of any other value.
\<close>

fun spread :: "js \<Rightarrow> obj" where
  "spread (JObj kvs) = kvs"
| "spread (JArr xs) = map (\<lambda>i. (show_nat i, xs ! i)) [0..<length xs]"
| "spread (JStr s) = map (\<lambda>i. (show_nat i, JStr [s ! i])) [0..<length s]"
| "spread v = []"

section \<open>Message adapter\<close>

text \<open>
  Modelled from the spec: the message classes of \<open>@/backend/message.js\<close> are not among
  the sources. A message is a role, an ordered list of typed content parts and a
  record of meta data; a constructor given a string wraps it as one text part.
  \<open>Role.USER\<close> is \<open>"user"\<close>. A text part holds a string; a part of another type
  holds the fields that follow its type. \<open>wire\<close> is the part as a plain object.
\<close>

datatype part =
    TextPart string
  | ImagePart obj
  | FilePart obj
  | ToolCallPart obj
  | ToolResultPart obj

fun wire :: "part \<Rightarrow> js" where
  "wire (TextPart s) = JObj [(''type'', JStr ''text''), (''text'', JStr s)]"
| "wire (ImagePart fields) = JObj ((''type'', JStr ''image'') # fields)"
| "wire (FilePart fields) = JObj ((''type'', JStr ''file'') # fields)"
| "wire (ToolCallPart fields) = JObj ((''type'', JStr ''tool-call'') # fields)"
| "wire (ToolResultPart fields) = JObj ((''type'', JStr ''tool-result'') # fields)"

record message =
  role :: string
  content :: "part list"
  meta :: obj

definition UserMessageParts :: "part list \<Rightarrow> message" where
  "UserMessageParts ps = \<lparr>role = ''user'', content = ps, meta = []\<rparr>"

definition UserMessage :: "string \<Rightarrow> message" where
  "UserMessage s = UserMessageParts [TextPart s]"

definition AssistantMessage :: "string \<Rightarrow> obj \<Rightarrow> message" where
  "AssistantMessage s m = \<lparr>role = ''assistant'', content = [TextPart s], meta = m\<rparr>"

text \<open>\<open>encodeCustomMessage\<close>: the sentinel text part, then the parts of the message.\<close>

definition encodeCustomMessage :: "message \<Rightarrow> message" where
  "encodeCustomMessage msg =
     UserMessageParts (TextPart (''#custom_role#'' @ role msg @ ''#'') # content msg)"

text \<open>\<open>s.split(c)\<close> for a separator of one character: never the empty list.\<close>

fun str_split :: "char \<Rightarrow> string \<Rightarrow> string list" where
  "str_split c [] = [[]]"
| "str_split c (x # xs) =
     (if x = c then [] # str_split c xs
      else (case str_split c xs of [] \<Rightarrow> [[x]] | w # ws \<Rightarrow> (x # w) # ws))"

text \<open>
  \<open>decodeCustomMessage\<close>: \<open>const [_, id, role, ...content] = value.split("#")\<close> (\<open>ident\<close> is \<open>id\<close>); a
  segment that is missing is \<open>undefined\<close>; \<open>None\<close> is the bare \<open>return\<close>.
\<close>

record decoded =
  d_role :: js
  d_content :: string

definition decodeCustomMessage :: "string \<Rightarrow> decoded option" where
  "decodeCustomMessage v =
     (case str_split CHR ''#'' v of
        _ # ident # rest \<Rightarrow>
          if ident \<noteq> ''custom_role'' then None
          else Some \<lparr>d_role = (case rest of [] \<Rightarrow> Undefined | r # _ \<Rightarrow> JStr r),
                     d_content = join ''#'' (drop 1 rest)\<rparr>
      | _ \<Rightarrow> None)"

datatype js_error = TypeError

text \<open>
  The array branch of \<open>unmaskCustomMessage\<close>:
  \<open>value.map((val) => (val.type === "text" ? val.text || val.content : null))
  .filter(isTruthy).join("")\<close>. Reading \<open>val.type\<close> of a \<open>null\<close> element raises, and
  so does \<open>join\<close> on an element that cannot be converted to a string.
\<close>

definition part_text :: "js \<Rightarrow> js option" where
  "part_text val =
     (if nullish val then None
      else Some (if property val ''type'' = JStr ''text''
                 then (if truthy (property val ''text'') then property val ''text''
                       else property val ''content'')
                 else Null))"

definition flatten :: "js list \<Rightarrow> string option" where
  "flatten vals =
     (case those (map part_text vals) of
        None \<Rightarrow> None
      | Some ts \<Rightarrow>
          (case those (map toString (filter truthy ts)) of
             None \<Rightarrow> None
           | Some ws \<Rightarrow> Some (concat ws)))"




section \<open>Remote agent\<close>

text \<open>
  One frame of the event stream; the run loop reads its \<open>data\<close> only.
\<close>

record sse_event =
  event_name :: "string option"
  data :: string

text \<open>
  What \<open>context.emitter.emit\<close> is called with, in order: \<open>update\<close> with its key and
  value, \<open>error\<close> with its message. The listeners are taken not to raise.
\<close>

datatype notification = NUpdate js js | NError js

text \<open>
  What a method raises. Modelled from the spec: the class \<open>AgentError\<close> is not among
  the sources; it is an error with a message, and its constructor converts the
  message to a string as the constructor of every JavaScript error does. The error
  that \<open>checkAgentExists\<close> wraps is the rejection of the fetch, with its message, or
  an error of the runtime; the message of the wrapping error is the text followed by
  the message of the wrapped one, and it is marked fatal.
\<close>

datatype caught = Rejected string | Raised js_error

datatype thrown =
    AgentError string
  | AgentErrorFatal string caught
  | Uncaught js_error

datatype inp = InStr string | InMsg message

datatype run_input = Single inp | Many "inp list"

record run_output =
  result :: message
  event :: js

record run_state =
  emitted :: "notification list"
  memory :: "message list"
  outcome :: "thrown + run_output"

fun convertToACPMessage :: "inp \<Rightarrow> js" where
  "convertToACPMessage (InStr s) =
     JObj [(''parts'', JArr [JObj [(''content'', JStr s), (''role'', JStr ''user'')]])]"
| "convertToACPMessage (InMsg m) =
     JObj [(''parts'', JArr [JObj [(''content'', JArr (map wire (content m))),
                                   (''role'', JStr (role m))]])]"

fun convertToMessage :: "inp \<Rightarrow> message" where
  "convertToMessage (InStr s) = UserMessage s"
| "convertToMessage (InMsg m) = m"

text \<open>
  Modelled from the spec: the memory classes are not among the sources. A memory is
  an append-only log of messages; \<open>add\<close> and \<open>addMany\<close> append in order.
\<close>

definition memory_add :: "message list \<Rightarrow> message \<Rightarrow> message list" where
  "memory_add mem m = mem @ [m]"

definition memory_addMany :: "message list \<Rightarrow> message list \<Rightarrow> message list" where
  "memory_addMany mem ms = mem @ ms"

text \<open>
  The loop \<open>for await (const event of generator)\<close> of \<open>_run\<close>, over the frames the
  generator yields before it ends. The state is \<open>eventData\<close> and the notifications
  emitted so far. \<open>JSON.parse\<close> is a parameter (\<open>None\<close>: it raises, before the
  assignment). For a parsed \<open>null\<close> the assignment is done and reading \<open>eventData.type\<close>
  raises: the \<open>catch\<close> clause serves both.
\<close>

fun consume ::
  "(string \<Rightarrow> js option) \<Rightarrow> sse_event list \<Rightarrow> js \<times> notification list \<Rightarrow> js \<times> notification list"
where
  "consume parse [] st = st"
| "consume parse (e # es) (eventData, log) =
     (case parse (data e) of
        None \<Rightarrow> consume parse es (eventData, log @ [NError (JStr ''Error parsing JSON'')])
      | Some v \<Rightarrow>
          (case get v ''type'' of
             None \<Rightarrow> consume parse es (v, log @ [NError (JStr ''Error parsing JSON'')])
           | Some t \<Rightarrow>
               consume parse es
                 (v, log @ [NUpdate t (JObj (set_prop (spread v) ''type'' Undefined))])))"

text \<open>
  \<open>parts.reduce((acc2, part) => acc2 + part.content, acc)\<close>; \<open>None\<close> is a TypeError,
  raised by reading \<open>content\<close> of a \<open>null\<close> part or by converting a content to a
  string.
\<close>

fun concat_contents :: "string \<Rightarrow> js list \<Rightarrow> string option" where
  "concat_contents acc [] = Some acc"
| "concat_contents acc (part # parts) =
     (case get part ''content'' of
        None \<Rightarrow> None
      | Some c \<Rightarrow>
          (case toString c of
             None \<Rightarrow> None
           | Some t \<Rightarrow> concat_contents (acc @ t) parts))"

text \<open>\<open>outputs.reduce((acc, output) => acc + output.parts.reduce(..., ""), acc)\<close>.\<close>

fun concat_outputs :: "string \<Rightarrow> js list \<Rightarrow> string option" where
  "concat_outputs acc [] = Some acc"
| "concat_outputs acc (output # outputs) =
     (case get output ''parts'' of
        Some (JArr parts) \<Rightarrow>
          (case concat_contents [] parts of
             None \<Rightarrow> None
           | Some t \<Rightarrow> concat_outputs (acc @ t) outputs)
      | _ \<Rightarrow> None)"

text \<open>\<open>eventData.run.output.reduce(..., "")\<close> for an \<open>eventData\<close> that is truthy.\<close>

definition output_text :: "js \<Rightarrow> string option" where
  "output_text eventData =
     (case get (property eventData ''run'') ''output'' of
        Some (JArr outputs) \<Rightarrow> concat_outputs [] outputs
      | _ \<Rightarrow> None)"

text \<open>
  \<open>RemoteAgent._run\<close>. The parameters are \<open>JSON.parse\<close>, the generator that
  \<open>client.stream("runs", ...)\<close> returns for a request body (the frames it yields until
  it ends), the configured agent name, the memory and the input. The result holds the
  notifications emitted, the memory afterwards and what the call returns or raises.
  In the failed branch the notification is emitted first; then \<open>new AgentError(message)\<close>
  converts the message to a string, which raises for a message that has no conversion.
\<close>

definition RemoteAgent_run ::
  "(string \<Rightarrow> js option) \<Rightarrow> (js \<Rightarrow> sse_event list) \<Rightarrow> string \<Rightarrow> message list \<Rightarrow> run_input
     \<Rightarrow> run_state"
where
  "RemoteAgent_run parse stream agentName mem input =
     (let inputs = (case input of Many xs \<Rightarrow> map convertToACPMessage xs
                                | Single x \<Rightarrow> [convertToACPMessage x]);
          generator = stream (JObj [(''agent_name'', JStr agentName),
                                    (''input'', JArr inputs),
                                    (''mode'', JStr ''stream'')]);
          (eventData, log) = consume parse generator (Null, [])
      in
        if \<not> truthy eventData then
          \<lparr>emitted = log, memory = mem,
           outcome = Inl (AgentError ''No event received from agent.'')\<rparr>
        else if property eventData ''type'' = JStr ''run.failed'' then
          (let m = opt_get (opt_get (property eventData ''run'') ''error'') ''message'';
               message = (if truthy m then m
                          else JStr ''Something went wrong with the agent communication.'')
           in \<lparr>emitted = log @ [NError message], memory = mem,
                outcome = (case toString message of
                             None \<Rightarrow> Inl (Uncaught TypeError)
                           | Some text \<Rightarrow> Inl (AgentError text))\<rparr>)
        else if property eventData ''type'' = JStr ''run.completed'' then
          (case output_text eventData of
             None \<Rightarrow> \<lparr>emitted = log, memory = mem, outcome = Inl (Uncaught TypeError)\<rparr>
           | Some text \<Rightarrow>
               (let assistantMessage = AssistantMessage text [(''event'', eventData)];
                    inputMessages = (case input of Many xs \<Rightarrow> map convertToMessage xs
                                                 | Single x \<Rightarrow> [convertToMessage x])
                in \<lparr>emitted = log,
                     memory = memory_add (memory_addMany mem inputMessages) assistantMessage,
                     outcome = Inr \<lparr>result = assistantMessage, event = eventData\<rparr>\<rparr>))
        else
          \<lparr>emitted = log, memory = mem,
           outcome = Inr \<lparr>result = AssistantMessage ''No response from agent.'' [],
                          event = eventData\<rparr>\<rparr>)"

text \<open>
  \<open>response.agents.find((agent) => agent.name === agentName)\<close>: the first matching
  entry, \<open>undefined\<close> when there is none; \<open>None\<close> when reading \<open>agent.name\<close> raises.
\<close>

fun find_agent :: "string \<Rightarrow> js list \<Rightarrow> js option" where
  "find_agent agentName [] = Some Undefined"
| "find_agent agentName (agent # agents) =
     (case get agent ''name'' of
        None \<Rightarrow> None
      | Some n \<Rightarrow> if n = JStr agentName then Some agent else find_agent agentName agents)"

text \<open>
  \<open>RemoteAgent.checkAgentExists\<close>. The first parameter is how \<open>client.fetch("agents")\<close>
  settles: \<open>Inl\<close> the message of its rejection, \<open>Inr\<close> the decoded payload.
\<close>

definition checkAgentExists :: "string + js \<Rightarrow> string \<Rightarrow> thrown + bool" where
  "checkAgentExists fetched agentName =
     (case fetched of
        Inl err \<Rightarrow> Inl (AgentErrorFatal ''Error while checking agent existence: '' (Rejected err))
      | Inr response \<Rightarrow>
          (case get response ''agents'' of
             Some (JArr agents) \<Rightarrow>
               (case find_agent agentName agents of
                  None \<Rightarrow>
                    Inl (AgentErrorFatal ''Error while checking agent existence: ''
                           (Raised TypeError))
                | Some found \<Rightarrow> Inr (truthy found))
           | _ \<Rightarrow>
               Inl (AgentErrorFatal ''Error while checking agent existence: ''
                      (Raised TypeError))))"

section \<open>Vector database tool\<close>

datatype QdrantAction = ListCollections | GetCollectionInfo | Search | Insert | Delete

text \<open>
  An input that has passed the schema of \<open>inputSchema\<close> (\<open>super.validateInput\<close>): the
  action is one of the five, every other field is optional. The tool never looks
  into a number, so their type is a parameter.
\<close>

datatype 'n point_id = IdStr string | IdNum 'n

record 'n tool_input =
  action :: QdrantAction
  collectionName :: "string option"
  vector :: "'n list option"
  vectors :: "'n list list option"
  topK :: "int option"
  filter_by :: "obj option"
  payload :: "obj list option"
  ids :: "'n point_id list option"

datatype tool_error = ToolInputValidationError string | ToolError string

record 'n point =
  p_id :: "'n point_id"
  p_vector :: "'n list"
  p_payload :: obj

record 'n search_params =
  query :: "'n list"
  limit :: int
  with_payload :: bool
  filter_param :: "obj option"

text \<open>The requests the tool hands to the database client.\<close>

datatype 'n client_call =
    GetCollections
  | GetCollection string
  | Upsert string "'n point list"
  | Query string "'n search_params"
  | DeletePoints string "'n point_id list"

text \<open>\<open>!input.collectionName\<close>: the name is missing or the empty string.\<close>

definition no_name :: "'n tool_input \<Rightarrow> bool" where
  "no_name input = (case collectionName input of None \<Rightarrow> True | Some n \<Rightarrow> n = [])"

text \<open>\<open>QdrantDatabaseTool.validateInput\<close>, after the schema check.\<close>

definition validateInput :: "'n tool_input \<Rightarrow> tool_error + unit" where
  "validateInput input =
     (if action input \<noteq> ListCollections \<and> no_name input then
        Inl (ToolInputValidationError
          ''Collection name is required for GetCollectionInfo, Search, Insert, and Delete actions.'')
      else if action input = Search \<and> (no_name input \<or> vector input = None) then
        Inl (ToolInputValidationError ''Vector is required for Search action.'')
      else if action input = Insert \<and> (no_name input \<or> vectors input = None) then
        Inl (ToolInputValidationError ''Vectors are required for Insert action.'')
      else Inr ())"

text \<open>\<open>xs?.[i]\<close> on an optional array.\<close>

definition at :: "'a list option \<Rightarrow> nat \<Rightarrow> 'a option" where
  "at xs i = (case xs of None \<Rightarrow> None | Some ys \<Rightarrow> if i < length ys then Some (ys ! i) else None)"

text \<open>
  The \<open>map\<close> of \<open>insert\<close>, from left to right. \<open>fresh k\<close> is what the \<open>k\<close>-th call of
  \<open>uuidv4()\<close> returns; \<open>drawn\<close> counts the calls made so far and \<open>index\<close> the vectors
  passed. An entry of the payload array is an object, which is truthy.
\<close>

fun points ::
  "(nat \<Rightarrow> string) \<Rightarrow> nat \<Rightarrow> nat \<Rightarrow> 'n list list \<Rightarrow> 'n point_id list option \<Rightarrow> obj list option
     \<Rightarrow> 'n point list"
where
  "points fresh drawn index [] is ps = []"
| "points fresh drawn index (v # vs) is ps =
     (case at is index of
        Some i \<Rightarrow>
          \<lparr>p_id = i, p_vector = v,
           p_payload = (case at ps index of None \<Rightarrow> [] | Some p \<Rightarrow> p)\<rparr>
            # points fresh drawn (Suc index) vs is ps
      | None \<Rightarrow>
          \<lparr>p_id = IdStr (fresh drawn), p_vector = v,
           p_payload = (case at ps index of None \<Rightarrow> [] | Some p \<Rightarrow> p)\<rparr>
            # points fresh (Suc drawn) (Suc index) vs is ps)"

text \<open>
  \<open>insert\<close>, \<open>search\<close> and \<open>delete\<close> are reached through the guards of \<open>_run\<close>
  only, which find the collection name and the array that the method asserts
  (\<open>input.vectors!\<close>, \<open>input.ids!\<close>): they are given what the guard found. The result
  is the request to the client, whose answer the tool returns as it is.
\<close>

definition insert_points :: "(nat \<Rightarrow> string) \<Rightarrow> string \<Rightarrow> 'n list list \<Rightarrow> 'n tool_input \<Rightarrow> 'n client_call" where
  "insert_points fresh name vs input = Upsert name (points fresh 0 0 vs (ids input) (payload input))"

definition search :: "string \<Rightarrow> 'n list \<Rightarrow> 'n tool_input \<Rightarrow> 'n client_call" where
  "search name v input =
     Query name \<lparr>query = v,
                 limit = (case topK input of None \<Rightarrow> 10 | Some k \<Rightarrow> if k = 0 then 10 else k),
                 with_payload = True,
                 filter_param = filter_by input\<rparr>"

definition delete_points :: "string \<Rightarrow> 'n point_id list \<Rightarrow> 'n client_call" where
  "delete_points name is = DeletePoints name is"

text \<open>\<open>QdrantDatabaseTool._run\<close>.\<close>

definition QdrantDatabaseTool_run :: "(nat \<Rightarrow> string) \<Rightarrow> 'n tool_input \<Rightarrow> tool_error + 'n client_call" where
  "QdrantDatabaseTool_run fresh input =
     (case action input of
        ListCollections \<Rightarrow> Inr GetCollections
      | GetCollectionInfo \<Rightarrow>
          (case collectionName input of
             Some name \<Rightarrow>
               if name = [] then
                 Inl (ToolError ''A collection name is required for Qdrant GetCollectionInfo action'')
               else Inr (GetCollection name)
           | None \<Rightarrow>
               Inl (ToolError ''A collection name is required for Qdrant GetCollectionInfo action''))
      | Search \<Rightarrow>
          (case (collectionName input, vector input) of
             (Some name, Some v) \<Rightarrow>
               if name = [] then
                 Inl (ToolError ''A collection name and vector are required for Qdrant Search action'')
               else Inr (search name v input)
           | _ \<Rightarrow>
               Inl (ToolError ''A collection name and vector are required for Qdrant Search action''))
      | Insert \<Rightarrow>
          (case (collectionName input, vectors input) of
             (Some name, Some vs) \<Rightarrow>
               if name = [] then
                 Inl (ToolError ''A collection name and vectors are required for Qdrant Insert action'')
               else Inr (insert_points fresh name vs input)
           | _ \<Rightarrow>
               Inl (ToolError ''A collection name and vectors are required for Qdrant Insert action''))
      | Delete \<Rightarrow>
          (case (collectionName input, ids input) of
             (Some name, Some is) \<Rightarrow>
               if name = [] then
                 Inl (ToolError ''Collection name and ids are required for Qdrant Delete action'')
               else Inr (delete_points name is)
           | _ \<Rightarrow>
               Inl (ToolError ''Collection name and ids are required for Qdrant Delete action'')))"

text \<open>
  Modelled from the spec: \<open>Tool.run\<close> of \<open>@/tools/base.js\<close> is not among the sources.
  The tool validates the input and only then delegates to \<open>_run\<close>.
\<close>

definition tool_run :: "(nat \<Rightarrow> string) \<Rightarrow> 'n tool_input \<Rightarrow> tool_error + 'n client_call" where
  "tool_run fresh input =
     (case validateInput input of
        Inl e \<Rightarrow> Inl e
      | Inr _ \<Rightarrow> QdrantDatabaseTool_run fresh input)"

section \<open>Notions of the specification\<close>

text \<open>
  The last successfully parsed event of a stream: what \<open>JSON.parse\<close> returned for the
  last frame it did not raise on.
\<close>

fun last_parsed :: "(string \<Rightarrow> js option) \<Rightarrow> sse_event list \<Rightarrow> js option" where
  "last_parsed parse [] = None"
| "last_parsed parse (e # es) =
     (case last_parsed parse es of Some v \<Rightarrow> Some v | None \<Rightarrow> parse (data e))"

text \<open>The body of the run request, and the frames the generator yields for it.\<close>

definition request_body :: "string \<Rightarrow> run_input \<Rightarrow> js" where
  "request_body agentName input =
     JObj [(''agent_name'', JStr agentName),
           (''input'', JArr (case input of Many xs \<Rightarrow> map convertToACPMessage xs
                                         | Single x \<Rightarrow> [convertToACPMessage x])),
           (''mode'', JStr ''stream'')]"

text \<open>The original input messages, strings wrapped as user messages.\<close>

definition input_messages :: "run_input \<Rightarrow> message list" where
  "input_messages input =
     (case input of Many xs \<Rightarrow> map convertToMessage xs | Single x \<Rightarrow> [convertToMessage x])"

text \<open>
  The wire shape of a completed run: \<open>run.output\<close> is an array of outputs, each with
  an array \<open>parts\<close> whose entries are not \<open>null\<close> and have a content that can be
  converted to a string.
\<close>

definition outputs_of :: "js \<Rightarrow> js list" where
  "outputs_of ev = (case property (property ev ''run'') ''output'' of JArr os \<Rightarrow> os | _ \<Rightarrow> [])"

definition parts_of :: "js \<Rightarrow> js list" where
  "parts_of out = (case property out ''parts'' of JArr ps \<Rightarrow> ps | _ \<Rightarrow> [])"

definition output_shape :: "js \<Rightarrow> bool" where
  "output_shape out =
     (case property out ''parts'' of
        JArr ps \<Rightarrow> list_all (\<lambda>p. \<not> nullish p \<and> toString (property p ''content'') \<noteq> None) ps
      | _ \<Rightarrow> False)"

definition completed_shape :: "js \<Rightarrow> bool" where
  "completed_shape ev =
     (case property (property ev ''run'') ''output'' of
        JArr os \<Rightarrow> list_all output_shape os
      | _ \<Rightarrow> False)"

text \<open>
  The concatenation of every output's parts' content, in output order then part
  order, each content as a string.
\<close>

definition shown :: "js \<Rightarrow> string" where
  "shown v = (case toString v of None \<Rightarrow> [] | Some s \<Rightarrow> s)"

definition content_text :: "js \<Rightarrow> string" where
  "content_text ev =
     concat (map (\<lambda>out. concat (map (\<lambda>p. shown (property p ''content'')) (parts_of out)))
                 (outputs_of ev))"

text \<open>
  The error message embedded in a failed run, \<open>run.error.message\<close> when there, and the
  message the failure is reported with: the embedded one, or the default when there
  is none (or a falsy one).
\<close>

definition embedded_message :: "js \<Rightarrow> js" where
  "embedded_message ev = opt_get (opt_get (property ev ''run'') ''error'') ''message''"

definition failure_message :: "js \<Rightarrow> js" where
  "failure_message ev =
     (if truthy (embedded_message ev) then embedded_message ev
      else JStr ''Something went wrong with the agent communication.'')"

text \<open>An object with a field left out, and the fields of an object that have a value.\<close>

definition omit :: "string \<Rightarrow> obj \<Rightarrow> obj" where
  "omit k kvs = filter (\<lambda>p. fst p \<noteq> k) kvs"

definition defined_fields :: "obj \<Rightarrow> obj" where
  "defined_fields kvs = filter (\<lambda>p. snd p \<noteq> Undefined) kvs"

text \<open>The flattened text of a message's parts, as they go over the wire.\<close>

definition wire_text :: "message \<Rightarrow> string option" where
  "wire_text m = flatten (map wire (content m))"

text \<open>The text of a list of typed parts: the texts of its text parts, in order.\<close>

fun part_str :: "part \<Rightarrow> string" where
  "part_str (TextPart s) = s"
| "part_str p = []"

definition parts_text :: "part list \<Rightarrow> string" where
  "parts_text ps = concat (map part_str ps)"

text \<open>
  The masking of the specification, in its own words. A text is cut at its \<open>#\<close>
  characters; it masks a message when its second segment is the sentinel token
  \<open>custom_role\<close>, the role is then the third segment (none when the text ends with
  the token) and the content is all that follows the third segment.
\<close>

definition upto_hash :: "string \<Rightarrow> string" where
  "upto_hash s = takeWhile (\<lambda>c. c \<noteq> CHR ''#'') s"

definition past_hash :: "string \<Rightarrow> string option" where
  "past_hash s =
     (if CHR ''#'' \<in> set s then Some (tl (dropWhile (\<lambda>c. c \<noteq> CHR ''#'') s)) else None)"

definition masked_text :: "string \<Rightarrow> (js \<times> string) option" where
  "masked_text s =
     (case past_hash s of
        None \<Rightarrow> None
      | Some s1 \<Rightarrow>
          if upto_hash s1 \<noteq> ''custom_role'' then None
          else (case past_hash s1 of
                  None \<Rightarrow> Some (Undefined, [])
                | Some s2 \<Rightarrow>
                    Some (JStr (upto_hash s2),
                          (case past_hash s2 of None \<Rightarrow> [] | Some s3 \<Rightarrow> s3))))"






text \<open>The checks of \<open>validateInput\<close>, as the specification lists them.\<close>

definition passes_checks :: "'n tool_input \<Rightarrow> bool" where
  "passes_checks input =
     (\<not> (action input \<noteq> ListCollections \<and> no_name input) \<and>
      \<not> (action input = Search \<and> vector input = None) \<and>
      \<not> (action input = Insert \<and> vectors input = None))"

section \<open>Example inputs\<close>

text \<open>A string in double quotes, as JSON writes it.\<close>

definition quoted :: "string \<Rightarrow> string" where
  "quoted s = CHR 0x22 # s @ [CHR 0x22]"

text \<open>The frames of the examples: the JSON text and the value \<open>JSON.parse\<close> returns for it.\<close>

definition completed_hello_text :: string where
  "completed_hello_text =
     ''{'' @ quoted ''type'' @ '':'' @ quoted ''run.completed'' @ '','' @ quoted ''run'' @ '':{''
       @ quoted ''output'' @ '':[{'' @ quoted ''parts'' @ '':[{'' @ quoted ''content'' @ '':''
       @ quoted ''Hello'' @ ''}]}]}}''"

definition completed_hello :: js where
  "completed_hello =
     JObj [(''type'', JStr ''run.completed''),
           (''run'', JObj [(''output'', JArr [JObj [(''parts'',
              JArr [JObj [(''content'', JStr ''Hello'')]])]])])]"

definition failed_boom_text :: string where
  "failed_boom_text =
     ''{'' @ quoted ''type'' @ '':'' @ quoted ''run.failed'' @ '','' @ quoted ''run'' @ '':{''
       @ quoted ''error'' @ '':{'' @ quoted ''message'' @ '':'' @ quoted ''boom'' @ ''}}}''"

definition failed_boom :: js where
  "failed_boom =
     JObj [(''type'', JStr ''run.failed''),
           (''run'', JObj [(''error'', JObj [(''message'', JStr ''boom'')])])]"

definition bare_completed_text :: string where
  "bare_completed_text = ''{'' @ quoted ''type'' @ '':'' @ quoted ''run.completed'' @ ''}''"

definition bare_completed :: js where
  "bare_completed = JObj [(''type'', JStr ''run.completed'')]"

definition in_progress_text :: string where
  "in_progress_text =
     ''{'' @ quoted ''type'' @ '':'' @ quoted ''run.in-progress'' @ '','' @ quoted ''run'' @ '':{''
       @ quoted ''status'' @ '':'' @ quoted ''in-progress'' @ ''}}''"

definition in_progress :: js where
  "in_progress =
     JObj [(''type'', JStr ''run.in-progress''),
           (''run'', JObj [(''status'', JStr ''in-progress'')])]"

definition failed_unprintable_text :: string where
  "failed_unprintable_text =
     ''{'' @ quoted ''type'' @ '':'' @ quoted ''run.failed'' @ '','' @ quoted ''run'' @ '':{''
       @ quoted ''error'' @ '':{'' @ quoted ''message'' @ '':{'' @ quoted ''toString''
       @ '':1}}}}''"

definition failed_unprintable :: js where
  "failed_unprintable =
     JObj [(''type'', JStr ''run.failed''),
           (''run'', JObj [(''error'',
              JObj [(''message'', JObj [(''toString'', JNum ''1'')])])])]"

text \<open>\<open>JSON.parse\<close> on the texts above; it raises on any other text of the examples.\<close>

definition example_parse :: "string \<Rightarrow> js option" where
  "example_parse s =
     map_of [(completed_hello_text, completed_hello),
             (failed_boom_text, failed_boom),
             (bare_completed_text, bare_completed),
             (in_progress_text, in_progress),
             (failed_unprintable_text, failed_unprintable)] s"

definition frame :: "string \<Rightarrow> sse_event" where
  "frame s = \<lparr>event_name = None, data = s\<rparr>"

text \<open>A generator that yields the given frames, whatever the request, and ends.\<close>

definition yields :: "sse_event list \<Rightarrow> js \<Rightarrow> sse_event list" where
  "yields es body = es"

definition example_uuid :: "nat \<Rightarrow> string" where
  "example_uuid k = ''00000000-0000-4000-8000-00000000000'' @ show_nat k"

definition delete_without_ids :: "int tool_input" where
  "delete_without_ids =
     \<lparr>action = Delete, collectionName = Some ''foobar_collection'', vector = None,
      vectors = None, topK = None, filter_by = None, payload = None, ids = None\<rparr>"

definition insert_two :: "int tool_input" where
  "insert_two =
     \<lparr>action = Insert, collectionName = Some ''embeddings_collection'', vector = None,
      vectors = Some [[1, 2, 3], [4, 5, 6]], topK = None, filter_by = None,
      payload = Some [[(''name'', JStr ''doc1'')]], ids = Some [IdNum 32]\<rparr>"

definition agents_with_null :: js where
  "agents_with_null = JObj [(''agents'', JArr [Null, JObj [(''name'', JStr ''chat'')]])]"

definition agents_two :: js where
  "agents_two =
     JObj [(''agents'', JArr [JObj [(''name'', JStr ''echo'')], JObj [(''name'', JStr ''chat'')]])]"


definition custom_system :: message where
  "custom_system = \<lparr>role = ''system'', content = [TextPart ''You are helpful''], meta = []\<rparr>"





definition info_without_name :: "int tool_input" where
  "info_without_name =
     \<lparr>action = GetCollectionInfo, collectionName = None, vector = None, vectors = None,
      topK = None, filter_by = None, payload = None, ids = None\<rparr>"

definition search_without_vector :: "int tool_input" where
  "search_without_vector =
     \<lparr>action = Search, collectionName = Some ''test'', vector = None, vectors = None,
      topK = None, filter_by = None, payload = None, ids = None\<rparr>"

definition insert_without_vectors :: "int tool_input" where
  "insert_without_vectors =
     \<lparr>action = Insert, collectionName = Some ''test'', vector = None, vectors = None,
      topK = None, filter_by = None, payload = None, ids = None\<rparr>"

section \<open>Strings and the message adapter\<close>

lemma str_split_nonempty: "str_split c s \<noteq> []"
  by (induction s) (auto split: list.splits)

lemma str_split_append: "c \<notin> set a \<Longrightarrow> str_split c (a @ c # b) = a # str_split c b"
  by (induction a) (auto split: list.splits)

lemma join_str_split: "join [c] (str_split c s) = s"
proof (induction s)
  case Nil
  show ?case by simp
next
  case (Cons x xs)
  obtain w ws where e: "str_split c xs = w # ws"
    using str_split_nonempty[of c xs] by (cases "str_split c xs") auto
  show ?case using Cons e by (cases ws) auto
qed

lemma str_split_cut:
  "str_split c s =
     takeWhile (\<lambda>x. x \<noteq> c) s
       # (if c \<in> set s then str_split c (tl (dropWhile (\<lambda>x. x \<noteq> c) s)) else [])"
  by (induction s) (auto split: list.splits)

lemma cut_append:
  "c \<notin> set a \<Longrightarrow> takeWhile (\<lambda>x. x \<noteq> c) (a @ c # b) = a"
  "c \<notin> set a \<Longrightarrow> dropWhile (\<lambda>x. x \<noteq> c) (a @ c # b) = c # b"
  by (induction a) auto

lemma decode_refines:
  "decodeCustomMessage s = map_option (\<lambda>(r, c). \<lparr>d_role = r, d_content = c\<rparr>) (masked_text s)"
proof (cases "CHR ''#'' \<in> set s")
  case False
  then have "str_split CHR ''#'' s = [s]"
    using str_split_cut[of "CHR ''#''" s] by (auto simp: takeWhile_eq_all_conv)
  with False show ?thesis
    by (simp add: decodeCustomMessage_def masked_text_def past_hash_def)
next
  case True
  define s1 where "s1 = tl (dropWhile (\<lambda>c. c \<noteq> CHR ''#'') s)"
  have a: "str_split CHR ''#'' s = takeWhile (\<lambda>c. c \<noteq> CHR ''#'') s # str_split CHR ''#'' s1"
    using True str_split_cut[of "CHR ''#''" s] by (simp add: s1_def)
  have p: "past_hash s = Some s1" using True by (simp add: past_hash_def s1_def)
  show ?thesis
  proof (cases "CHR ''#'' \<in> set s1")
    case False
    then have b: "str_split CHR ''#'' s1 = [s1]" "upto_hash s1 = s1" "past_hash s1 = None"
      using str_split_cut[of "CHR ''#''" s1]
      by (auto simp: upto_hash_def past_hash_def takeWhile_eq_all_conv)
    show ?thesis
      using b by (cases "s1 = ''custom_role''") (simp_all add: decodeCustomMessage_def masked_text_def a p)
  next
    case t1: True
    define s2 where "s2 = tl (dropWhile (\<lambda>c. c \<noteq> CHR ''#'') s1)"
    have b: "str_split CHR ''#'' s1 = upto_hash s1 # str_split CHR ''#'' s2"
      using t1 str_split_cut[of "CHR ''#''" s1] by (simp add: s2_def upto_hash_def)
    have q: "past_hash s1 = Some s2" using t1 by (simp add: past_hash_def s2_def)
    have c: "str_split CHR ''#'' s2 =
        upto_hash s2 # (case past_hash s2 of None \<Rightarrow> [] | Some s3 \<Rightarrow> str_split CHR ''#'' s3)"
      using str_split_cut[of "CHR ''#''" s2] by (simp add: upto_hash_def past_hash_def)
    have j: "join ''#'' (case past_hash s2 of None \<Rightarrow> [] | Some s3 \<Rightarrow> str_split CHR ''#'' s3)
        = (case past_hash s2 of None \<Rightarrow> [] | Some s3 \<Rightarrow> s3)"
      using join_str_split[of "CHR ''#''"] by (simp split: option.splits)
    show ?thesis
      by (simp add: decodeCustomMessage_def masked_text_def a p b q c j)
  qed
qed

lemma masked_text_cut:
  assumes "CHR ''#'' \<notin> set pre" and "CHR ''#'' \<notin> set tok" and "CHR ''#'' \<notin> set r"
  shows "masked_text (pre @ CHR ''#'' # (tok @ CHR ''#'' # (r @ CHR ''#'' # c)))
           = (if tok \<noteq> ''custom_role'' then None else Some (JStr r, c))"
proof -
  have 1: "past_hash (pre @ CHR ''#'' # (tok @ CHR ''#'' # (r @ CHR ''#'' # c)))
             = Some (tok @ CHR ''#'' # (r @ CHR ''#'' # c))"
    using assms(1) by (simp add: past_hash_def cut_append)
  have 2: "upto_hash (tok @ CHR ''#'' # (r @ CHR ''#'' # c)) = tok"
    using assms(2) by (simp add: upto_hash_def cut_append)
  have 3: "past_hash (tok @ CHR ''#'' # (r @ CHR ''#'' # c)) = Some (r @ CHR ''#'' # c)"
    using assms(2) by (simp add: past_hash_def cut_append)
  have 4: "upto_hash (r @ CHR ''#'' # c) = r"
    using assms(3) by (simp add: upto_hash_def cut_append)
  have 5: "past_hash (r @ CHR ''#'' # c) = Some c"
    using assms(3) by (simp add: past_hash_def cut_append)
  show ?thesis
    unfolding masked_text_def 1 option.case 2 3 4 5 by simp
qed

lemma masked_text_sentinel:
  assumes "CHR ''#'' \<notin> set pre" and "CHR ''#'' \<notin> set r"
  shows "masked_text (pre @ ''#custom_role#'' @ r @ ''#'' @ c) = Some (JStr r, c)"
  using masked_text_cut[OF assms(1) _ assms(2), of "''custom_role''" c] by simp

lemma decode_sentinel:
  assumes "CHR ''#'' \<notin> set r"
  shows "decodeCustomMessage (''#custom_role#'' @ r @ ''#'' @ c)
           = Some \<lparr>d_role = JStr r, d_content = c\<rparr>"
  using masked_text_sentinel[of "[]" r c] assms by (simp add: decode_refines)

lemma flatten_Cons:
  "flatten (v # vs) =
     (case part_text v of
        None \<Rightarrow> None
      | Some t \<Rightarrow>
          (case flatten vs of
             None \<Rightarrow> None
           | Some c \<Rightarrow> if truthy t then map_option (\<lambda>w. w @ c) (toString t) else Some c))"
  by (auto simp: flatten_def split: option.splits)

lemma flatten_Nil: "flatten [] = Some []"
  by (simp add: flatten_def)

lemma flatten_wire: "flatten (map wire ps) = Some (parts_text ps)"
proof (induction ps)
  case Nil
  show ?case by (simp add: flatten_Nil parts_text_def)
next
  case (Cons p ps)
  then show ?case
    by (cases p) (auto simp: flatten_Cons part_text_def parts_text_def)
qed

text \<open>
  C4. A message whose role contains no \<open>#\<close> survives encoding and decoding: its parts
  flatten to a text \<open>c\<close>, and decoding the flattened text of the encoded message gives
  back the role and \<open>c\<close>. (The role need not even be a custom one.)
\<close>

theorem decode_encode_roundtrip:
  assumes "CHR ''#'' \<notin> set (role m)"
  shows "\<exists>c. wire_text m = Some c \<and>
           Option.bind (wire_text (encodeCustomMessage m)) decodeCustomMessage
             = Some \<lparr>d_role = JStr (role m), d_content = c\<rparr>"
proof -
  have c: "wire_text m = Some (parts_text (content m))"
    by (simp add: wire_text_def flatten_wire)
  have "wire_text (encodeCustomMessage m)
          = Some (''#custom_role#'' @ role m @ ''#'' @ parts_text (content m))"
    using flatten_wire[of "TextPart (''#custom_role#'' @ role m @ ''#'') # content m"]
    by (simp add: wire_text_def encodeCustomMessage_def UserMessageParts_def parts_text_def)
  then show ?thesis
    using c decode_sentinel[OF assms, of "parts_text (content m)"] by simp
qed

theorem decode_encode_roundtrip_witness:
  "CHR ''#'' \<notin> set (role custom_system) \<and>
   (\<exists>c. wire_text custom_system = Some c \<and>
      Option.bind (wire_text (encodeCustomMessage custom_system)) decodeCustomMessage
        = Some \<lparr>d_role = JStr ''system'', d_content = c\<rparr>)"
proof -
  have h: "CHR ''#'' \<notin> set (role custom_system)" by (simp add: custom_system_def)
  show ?thesis using h decode_encode_roundtrip[OF h] by (simp add: custom_system_def)
qed











section \<open>The run of the remote agent\<close>

lemma consume_eventData:
  "fst (consume parse es (ed, log)) = (case last_parsed parse es of None \<Rightarrow> ed | Some v \<Rightarrow> v)"
  by (induction es arbitrary: ed log) (auto split: option.splits)

lemma run_cases:
  assumes "consume parse (stream (request_body agentName input)) (Null, []) = (ed, log)"
  shows "RemoteAgent_run parse stream agentName mem input =
     (if \<not> truthy ed then
        \<lparr>emitted = log, memory = mem, outcome = Inl (AgentError ''No event received from agent.'')\<rparr>
      else if property ed ''type'' = JStr ''run.failed'' then
        \<lparr>emitted = log @ [NError (failure_message ed)],
         memory = mem,
         outcome = (case toString (failure_message ed) of
                      None \<Rightarrow> Inl (Uncaught TypeError)
                    | Some text \<Rightarrow> Inl (AgentError text))\<rparr>
      else if property ed ''type'' = JStr ''run.completed'' then
        (case output_text ed of
           None \<Rightarrow> \<lparr>emitted = log, memory = mem, outcome = Inl (Uncaught TypeError)\<rparr>
         | Some text \<Rightarrow>
             \<lparr>emitted = log,
              memory = mem @ input_messages input @ [AssistantMessage text [(''event'', ed)]],
              outcome = Inr \<lparr>result = AssistantMessage text [(''event'', ed)], event = ed\<rparr>\<rparr>)
      else
        \<lparr>emitted = log, memory = mem,
         outcome = Inr \<lparr>result = AssistantMessage ''No response from agent.'' [], event = ed\<rparr>\<rparr>)"
  using assms
  by (simp add: RemoteAgent_run_def request_body_def input_messages_def embedded_message_def
      failure_message_def memory_add_def memory_addMany_def Let_def split: option.splits)

lemma run_eventData:
  obtains log where
    "consume parse frames (Null, []) = (case last_parsed parse frames of None \<Rightarrow> Null | Some v \<Rightarrow> v, log)"
  using consume_eventData[of parse frames Null "[]"]
  by (cases "consume parse frames (Null, [])") auto

lemma concat_contents_shape:
  "list_all (\<lambda>p. \<not> nullish p \<and> toString (property p ''content'') \<noteq> None) ps \<Longrightarrow>
     concat_contents acc ps = Some (acc @ concat (map (\<lambda>p. shown (property p ''content'')) ps))"
  by (induction ps arbitrary: acc) (auto simp: get_def shown_def)

lemma concat_outputs_shape:
  "list_all output_shape os \<Longrightarrow>
     concat_outputs acc os =
       Some (acc @ concat (map (\<lambda>out. concat (map (\<lambda>p. shown (property p ''content'')) (parts_of out))) os))"
proof (induction os arbitrary: acc)
  case Nil
  then show ?case by simp
next
  case (Cons out os)
  from Cons.prems obtain ps where ps: "property out ''parts'' = JArr ps"
    "list_all (\<lambda>p. \<not> nullish p \<and> toString (property p ''content'') \<noteq> None) ps"
    by (auto simp: output_shape_def split: js.splits)
  then have nn: "\<not> nullish out" by (cases out) auto
  from Cons.prems have "list_all output_shape os" by simp
  from Cons.IH[OF this] show ?case
    using ps nn concat_contents_shape[OF ps(2), of "[]"] by (simp add: get_def parts_of_def)
qed

lemma output_text_shape: "completed_shape ev \<Longrightarrow> output_text ev = Some (content_text ev)"
proof -
  assume h: "completed_shape ev"
  then obtain os where os: "property (property ev ''run'') ''output'' = JArr os" "list_all output_shape os"
    by (auto simp: completed_shape_def split: js.splits)
  then have nn: "\<not> nullish (property ev ''run'')" by (cases "property ev ''run''") auto
  show ?thesis
    using os nn concat_outputs_shape[OF os(2), of "[]"]
    by (simp add: output_text_def get_def content_text_def outputs_of_def)
qed

lemma type_truthy: "property ev ''type'' = JStr t \<Longrightarrow> truthy ev"
  by (cases ev) auto

text \<open>
  C1, as amended. When the last successfully parsed event has type \<open>run.completed\<close>
  and the wire shape of a completed run (\<open>run.output\<close> an array of outputs, each with
  an array of parts none of which is \<open>null\<close> and each with a content that can be
  converted to a string), the call returns the assistant message whose text is the
  concatenation of every output's parts' content, in output order then part order,
  together with that event, and the memory afterwards is the memory before, then the
  original input messages (strings wrapped as user messages), then that assistant
  message.
\<close>

theorem run_completed:
  assumes "last_parsed parse (stream (request_body agentName input)) = Some ev"
    and "property ev ''type'' = JStr ''run.completed''"
    and "completed_shape ev"
  shows "outcome (RemoteAgent_run parse stream agentName mem input)
           = Inr \<lparr>result = AssistantMessage (content_text ev) [(''event'', ev)], event = ev\<rparr>
         \<and> memory (RemoteAgent_run parse stream agentName mem input)
           = mem @ input_messages input @ [AssistantMessage (content_text ev) [(''event'', ev)]]"
proof -
  obtain log where c: "consume parse (stream (request_body agentName input)) (Null, []) = (ev, log)"
    using run_eventData[of parse "stream (request_body agentName input)"] assms(1) by auto
  show ?thesis
    unfolding run_cases[where stream = stream and mem = mem, OF c]
    using assms(2) type_truthy[OF assms(2)] output_text_shape[OF assms(3)] by simp
qed

lemma example_parse_simps:
  "example_parse completed_hello_text = Some completed_hello"
  "example_parse failed_boom_text = Some failed_boom"
  "example_parse bare_completed_text = Some bare_completed"
  "example_parse in_progress_text = Some in_progress"
  "example_parse failed_unprintable_text = Some failed_unprintable"
  "example_parse ''not json'' = None"
  by (simp_all add: example_parse_def completed_hello_text_def failed_boom_text_def
      bare_completed_text_def in_progress_text_def failed_unprintable_text_def quoted_def)

theorem run_completed_witness:
  "last_parsed example_parse (yields [frame completed_hello_text] (request_body ''chat'' (Single (InStr ''Hi''))))
      = Some completed_hello
   \<and> property completed_hello ''type'' = JStr ''run.completed''
   \<and> completed_shape completed_hello
   \<and> outcome (RemoteAgent_run example_parse (yields [frame completed_hello_text]) ''chat'' [] (Single (InStr ''Hi'')))
       = Inr \<lparr>result = AssistantMessage ''Hello'' [(''event'', completed_hello)], event = completed_hello\<rparr>
   \<and> memory (RemoteAgent_run example_parse (yields [frame completed_hello_text]) ''chat'' [] (Single (InStr ''Hi'')))
       = [UserMessage ''Hi'', AssistantMessage ''Hello'' [(''event'', completed_hello)]]"
proof -
  have a: "last_parsed example_parse (yields [frame completed_hello_text] (request_body ''chat'' (Single (InStr ''Hi''))))
      = Some completed_hello"
    by (simp add: yields_def frame_def example_parse_simps)
  have b: "property completed_hello ''type'' = JStr ''run.completed''"
    by (simp add: completed_hello_def)
  have c: "completed_shape completed_hello"
    by (simp add: completed_hello_def completed_shape_def output_shape_def)
  have d: "content_text completed_hello = ''Hello''"
    by (simp add: completed_hello_def content_text_def outputs_of_def parts_of_def shown_def)
  show ?thesis
    using a b c run_completed[where stream = "yields [frame completed_hello_text]" and mem = "[]", OF a b c] by (simp add: d input_messages_def)
qed

text \<open>
  C1 as stated fails: the only frame is \<open>{"type":"run.completed"}\<close>; reading
  \<open>eventData.run.output\<close> raises a TypeError, the call does not return and nothing is
  appended to the memory.
\<close>

theorem run_completed_counterexample:
  "last_parsed example_parse (yields [frame bare_completed_text] (request_body ''chat'' (Single (InStr ''Hi''))))
      = Some bare_completed
   \<and> property bare_completed ''type'' = JStr ''run.completed''
   \<and> RemoteAgent_run example_parse (yields [frame bare_completed_text]) ''chat'' [] (Single (InStr ''Hi''))
       = \<lparr>emitted = [NUpdate (JStr ''run.completed'') (JObj [(''type'', Undefined)])],
          memory = [], outcome = Inl (Uncaught TypeError)\<rparr>"
  by (simp add: yields_def frame_def example_parse_simps RemoteAgent_run_def bare_completed_def
      get_def output_text_def)




text \<open>
  C3. A frame whose data does not parse adds the \<open>error\<close> notification
  \<open>Error parsing JSON\<close>, leaves \<open>eventData\<close> as it was, and the loop goes on with the
  rest of the stream. For a stream of one malformed frame followed by one valid
  \<open>run.completed\<close> frame, the notifications are exactly that one \<open>error\<close> and one
  \<open>update\<close>, and the call returns the result built from the valid frame.
\<close>

theorem malformed_frame_skipped:
  "(parse (data e) = None \<longrightarrow>
      consume parse (e # es) (eventData, log)
        = consume parse es (eventData, log @ [NError (JStr ''Error parsing JSON'')]))
   \<and> (parse (data bad) = None \<and> parse (data good) = Some ev
        \<and> property ev ''type'' = JStr ''run.completed'' \<and> completed_shape ev
        \<and> stream (request_body agentName input) = [bad, good]
      \<longrightarrow> emitted (RemoteAgent_run parse stream agentName mem input)
            = [NError (JStr ''Error parsing JSON''),
               NUpdate (JStr ''run.completed'') (JObj (set_prop (spread ev) ''type'' Undefined))]
          \<and> outcome (RemoteAgent_run parse stream agentName mem input)
            = Inr \<lparr>result = AssistantMessage (content_text ev) [(''event'', ev)], event = ev\<rparr>)"
proof (rule conjI; rule impI)
  assume "parse (data e) = None"
  then show "consume parse (e # es) (eventData, log)
        = consume parse es (eventData, log @ [NError (JStr ''Error parsing JSON'')])"
    by simp
next
  assume h: "parse (data bad) = None \<and> parse (data good) = Some ev
        \<and> property ev ''type'' = JStr ''run.completed'' \<and> completed_shape ev
        \<and> stream (request_body agentName input) = [bad, good]"
  then have t: "property ev ''type'' = JStr ''run.completed''" and s: "completed_shape ev" by auto
  have nn: "\<not> nullish ev" using t by (cases ev) auto
  have c: "consume parse (stream (request_body agentName input)) (Null, [])
     = (ev, [NError (JStr ''Error parsing JSON''),
             NUpdate (JStr ''run.completed'') (JObj (set_prop (spread ev) ''type'' Undefined))])"
    using h nn by (simp add: get_def)
  show "emitted (RemoteAgent_run parse stream agentName mem input)
            = [NError (JStr ''Error parsing JSON''),
               NUpdate (JStr ''run.completed'') (JObj (set_prop (spread ev) ''type'' Undefined))]
          \<and> outcome (RemoteAgent_run parse stream agentName mem input)
            = Inr \<lparr>result = AssistantMessage (content_text ev) [(''event'', ev)], event = ev\<rparr>"
    unfolding run_cases[where stream = stream and mem = mem, OF c]
    using t type_truthy[OF t] output_text_shape[OF s] by simp
qed

lemma completed_hello_facts:
  "property completed_hello ''type'' = JStr ''run.completed''"
  "completed_shape completed_hello"
  "content_text completed_hello = ''Hello''"
  by (simp_all add: completed_hello_def completed_shape_def output_shape_def content_text_def
      outputs_of_def parts_of_def shown_def)

theorem malformed_frame_skipped_witness:
  "example_parse (data (frame ''not json'')) = None
   \<and> consume example_parse [frame ''not json'', frame in_progress_text] (in_progress, [])
       = (in_progress, [NError (JStr ''Error parsing JSON''),
            NUpdate (JStr ''run.in-progress'')
              (JObj [(''type'', Undefined), (''run'', JObj [(''status'', JStr ''in-progress'')])])])
   \<and> example_parse (data (frame completed_hello_text)) = Some completed_hello
   \<and> property completed_hello ''type'' = JStr ''run.completed''
   \<and> completed_shape completed_hello
   \<and> yields [frame ''not json'', frame completed_hello_text] (request_body ''chat'' (Single (InStr ''Hi'')))
       = [frame ''not json'', frame completed_hello_text]
   \<and> emitted (RemoteAgent_run example_parse (yields [frame ''not json'', frame completed_hello_text])
        ''chat'' [] (Single (InStr ''Hi'')))
       = [NError (JStr ''Error parsing JSON''),
          NUpdate (JStr ''run.completed'') (JObj (set_prop (spread completed_hello) ''type'' Undefined))]
   \<and> outcome (RemoteAgent_run example_parse (yields [frame ''not json'', frame completed_hello_text])
        ''chat'' [] (Single (InStr ''Hi'')))
       = Inr \<lparr>result = AssistantMessage ''Hello'' [(''event'', completed_hello)], event = completed_hello\<rparr>"
proof -
  have a: "example_parse (data (frame ''not json'')) = None"
    by (simp add: frame_def example_parse_simps)
  have b: "example_parse (data (frame completed_hello_text)) = Some completed_hello"
    by (simp add: frame_def example_parse_simps)
  have c: "consume example_parse [frame in_progress_text] (in_progress, [NError (JStr ''Error parsing JSON'')])
       = (in_progress, [NError (JStr ''Error parsing JSON''),
            NUpdate (JStr ''run.in-progress'')
              (JObj [(''type'', Undefined), (''run'', JObj [(''status'', JStr ''in-progress'')])])])"
    by (simp add: frame_def example_parse_simps get_def in_progress_def)
  have y: "yields [frame ''not json'', frame completed_hello_text] (request_body ''chat'' (Single (InStr ''Hi'')))
       = [frame ''not json'', frame completed_hello_text]"
    by (simp add: yields_def)
  note m = malformed_frame_skipped[where parse = example_parse and e = "frame ''not json''"
      and es = "[frame in_progress_text]" and eventData = in_progress and log = "[]"
      and bad = "frame ''not json''" and good = "frame completed_hello_text" and ev = completed_hello
      and stream = "yields [frame ''not json'', frame completed_hello_text]" and agentName = "''chat''"
      and input = "Single (InStr ''Hi'')" and mem = "[]"]
  show ?thesis
    using a b c y completed_hello_facts m by simp
qed

lemma map_of_set_prop: "map_of (set_prop kvs k v) k' = (if k' = k then Some v else map_of kvs k')"
  by (induction kvs) auto

lemma map_of_omit: "map_of (omit k kvs) k' = (if k' = k then None else map_of kvs k')"
  by (induction kvs) (auto simp: omit_def)

lemma defined_fields_set_prop:
  "distinct (map fst kvs) \<Longrightarrow> Undefined \<notin> snd ` set kvs \<Longrightarrow>
     defined_fields (set_prop kvs k Undefined) = omit k kvs"
proof (induction kvs)
  case Nil
  show ?case by (simp add: defined_fields_def omit_def)
next
  case (Cons p kvs)
  show ?case
  proof (cases "fst p = k")
    case True
    from Cons.prems have "\<forall>q \<in> set kvs. snd q \<noteq> Undefined \<and> fst q \<noteq> k"
      using True by (auto simp: image_iff)
    then have "filter (\<lambda>q. snd q \<noteq> Undefined) kvs = kvs" "filter (\<lambda>q. fst q \<noteq> k) kvs = kvs"
      by (simp_all add: filter_id_conv)
    with True show ?thesis by (simp add: defined_fields_def omit_def)
  next
    case False
    with Cons show ?thesis by (auto simp: defined_fields_def omit_def image_iff)
  qed
qed

text \<open>
  C5. For a frame whose data parses to an object with a \<open>type\<close> field, the loop emits
  an \<open>update\<close> notification whose key is the parsed type and whose value is the
  parsed object with the \<open>type\<close> field omitted: the value is built by overwriting
  \<open>type\<close> with \<open>undefined\<close>, so that every field read from it is what the parsed object
  without its \<open>type\<close> gives, and its fields that have a value are exactly those of
  that object (a parsed object has no repeated key and no \<open>undefined\<close> value).
\<close>

theorem update_notification:
  assumes "parse (data e) = Some (JObj kvs)" and "map_of kvs ''type'' = Some t"
  shows "consume parse (e # es) (eventData, log)
           = consume parse es (JObj kvs, log @ [NUpdate t (JObj (set_prop kvs ''type'' Undefined))])
         \<and> (\<forall>k. property (JObj (set_prop kvs ''type'' Undefined)) k
                = property (JObj (omit ''type'' kvs)) k)
         \<and> (distinct (map fst kvs) \<and> Undefined \<notin> snd ` set kvs
              \<longrightarrow> defined_fields (set_prop kvs ''type'' Undefined) = omit ''type'' kvs)"
  using assms by (simp add: get_def map_of_set_prop map_of_omit defined_fields_set_prop)

theorem update_notification_witness:
  "example_parse (data (frame in_progress_text))
     = Some (JObj [(''type'', JStr ''run.in-progress''), (''run'', JObj [(''status'', JStr ''in-progress'')])])
   \<and> map_of [(''type'', JStr ''run.in-progress''), (''run'', JObj [(''status'', JStr ''in-progress'')])] ''type''
     = Some (JStr ''run.in-progress'')
   \<and> distinct (map fst [(''type'', JStr ''run.in-progress''), (''run'', JObj [(''status'', JStr ''in-progress'')])])
   \<and> Undefined \<notin> snd ` set [(''type'', JStr ''run.in-progress''), (''run'', JObj [(''status'', JStr ''in-progress'')])]
   \<and> consume example_parse [frame in_progress_text] (Null, [])
     = (in_progress, [NUpdate (JStr ''run.in-progress'')
          (JObj (set_prop (spread in_progress) ''type'' Undefined))])
   \<and> defined_fields (set_prop (spread in_progress) ''type'' Undefined)
     = [(''run'', JObj [(''status'', JStr ''in-progress'')])]
   \<and> omit ''type'' (spread in_progress) = [(''run'', JObj [(''status'', JStr ''in-progress'')])]"
proof -
  have a: "example_parse (data (frame in_progress_text))
     = Some (JObj [(''type'', JStr ''run.in-progress''), (''run'', JObj [(''status'', JStr ''in-progress'')])])"
    by (simp add: frame_def example_parse_simps in_progress_def)
  have b: "map_of [(''type'', JStr ''run.in-progress''), (''run'', JObj [(''status'', JStr ''in-progress'')])] ''type''
     = Some (JStr ''run.in-progress'')" by simp
  have d: "distinct (map fst [(''type'', JStr ''run.in-progress''), (''run'', JObj [(''status'', JStr ''in-progress'')])])
     \<and> Undefined \<notin> snd ` set [(''type'', JStr ''run.in-progress''), (''run'', JObj [(''status'', JStr ''in-progress'')])]"
    by simp
  have o: "omit ''type'' (spread in_progress) = [(''run'', JObj [(''status'', JStr ''in-progress'')])]"
    by (simp add: in_progress_def omit_def)
  note t = update_notification[where parse = example_parse and e = "frame in_progress_text" and es = "[]"
        and eventData = Null and log = "[]", OF a b]
  have c: "consume example_parse [frame in_progress_text] (Null, [])
     = (in_progress, [NUpdate (JStr ''run.in-progress'')
          (JObj (set_prop (spread in_progress) ''type'' Undefined))])"
    using t by (simp add: in_progress_def)
  have f: "defined_fields (set_prop (spread in_progress) ''type'' Undefined)
     = omit ''type'' (spread in_progress)"
    using t d by (simp add: in_progress_def)
  show ?thesis using a b d c f o by simp
qed

text \<open>
  C6. When the last successfully parsed event is an object whose type is neither
  \<open>run.completed\<close> nor \<open>run.failed\<close>, the call returns the placeholder assistant
  message \<open>No response from agent.\<close> together with that event, and the memory is the
  memory before.
\<close>

theorem run_other_type:
  assumes "last_parsed parse (stream (request_body agentName input)) = Some (JObj kvs)"
    and "property (JObj kvs) ''type'' \<noteq> JStr ''run.completed''"
    and "property (JObj kvs) ''type'' \<noteq> JStr ''run.failed''"
  shows "outcome (RemoteAgent_run parse stream agentName mem input)
           = Inr \<lparr>result = AssistantMessage ''No response from agent.'' [], event = JObj kvs\<rparr>
         \<and> memory (RemoteAgent_run parse stream agentName mem input) = mem"
proof -
  obtain log where c: "consume parse (stream (request_body agentName input)) (Null, []) = (JObj kvs, log)"
    using run_eventData[of parse "stream (request_body agentName input)"] assms(1) by auto
  show ?thesis
    unfolding run_cases[where stream = stream and mem = mem, OF c]
    using assms(2,3) by simp
qed

theorem run_other_type_witness:
  "last_parsed example_parse (yields [frame in_progress_text] (request_body ''chat'' (Single (InStr ''Hi''))))
     = Some (JObj [(''type'', JStr ''run.in-progress''), (''run'', JObj [(''status'', JStr ''in-progress'')])])
   \<and> property (JObj [(''type'', JStr ''run.in-progress''), (''run'', JObj [(''status'', JStr ''in-progress'')])]) ''type''
     \<noteq> JStr ''run.completed''
   \<and> property (JObj [(''type'', JStr ''run.in-progress''), (''run'', JObj [(''status'', JStr ''in-progress'')])]) ''type''
     \<noteq> JStr ''run.failed''
   \<and> outcome (RemoteAgent_run example_parse (yields [frame in_progress_text]) ''chat'' [UserMessage ''old''] (Single (InStr ''Hi'')))
     = Inr \<lparr>result = AssistantMessage ''No response from agent.'' [], event = in_progress\<rparr>
   \<and> memory (RemoteAgent_run example_parse (yields [frame in_progress_text]) ''chat'' [UserMessage ''old''] (Single (InStr ''Hi'')))
     = [UserMessage ''old'']"
proof -
  have a: "last_parsed example_parse (yields [frame in_progress_text] (request_body ''chat'' (Single (InStr ''Hi''))))
     = Some (JObj [(''type'', JStr ''run.in-progress''), (''run'', JObj [(''status'', JStr ''in-progress'')])])"
    by (simp add: yields_def frame_def example_parse_simps in_progress_def)
  have b: "property (JObj [(''type'', JStr ''run.in-progress''), (''run'', JObj [(''status'', JStr ''in-progress'')])]) ''type''
     \<noteq> JStr ''run.completed''" by simp
  have c: "property (JObj [(''type'', JStr ''run.in-progress''), (''run'', JObj [(''status'', JStr ''in-progress'')])]) ''type''
     \<noteq> JStr ''run.failed''" by simp
  show ?thesis
    using a run_other_type[where stream = "yields [frame in_progress_text]" and mem = "[UserMessage ''old'']", OF a b c]
    by (simp add: in_progress_def)
qed

lemma find_agent_objects:
  "list_all (\<lambda>a. \<not> nullish a) agents \<Longrightarrow>
     \<exists>found. find_agent agentName agents = Some found
       \<and> truthy found = list_ex (\<lambda>a. property a ''name'' = JStr agentName) agents"
proof (induction agents)
  case Nil
  then show ?case by simp
next
  case (Cons a agents)
  show ?case
  proof (cases "property a ''name'' = JStr agentName")
    case True
    then have "truthy a" by (cases a) auto
    with True Cons.prems show ?thesis by (simp add: get_def)
  next
    case False
    with Cons show ?thesis by (simp add: get_def)
  qed
qed

text \<open>
  C7, as amended. When the fetch rejects, \<open>checkAgentExists\<close> raises the wrapping
  error, marked fatal. When the payload holds an agents list none of whose entries is
  \<open>null\<close>, it returns whether some entry's name equals the configured agent name:
  \<open>true\<close> exactly when there is one, \<open>false\<close> for an empty or non-matching list.
\<close>

theorem agent_exists:
  "checkAgentExists (Inl err) agentName
     = Inl (AgentErrorFatal ''Error while checking agent existence: '' (Rejected err))
   \<and> (property response ''agents'' = JArr agents \<and> list_all (\<lambda>a. \<not> nullish a) agents
      \<longrightarrow> checkAgentExists (Inr response) agentName
            = Inr (list_ex (\<lambda>a. property a ''name'' = JStr agentName) agents))"
proof (rule conjI)
  show "checkAgentExists (Inl err) agentName
     = Inl (AgentErrorFatal ''Error while checking agent existence: '' (Rejected err))"
    by (simp add: checkAgentExists_def)
next
  show "property response ''agents'' = JArr agents \<and> list_all (\<lambda>a. \<not> nullish a) agents
      \<longrightarrow> checkAgentExists (Inr response) agentName
            = Inr (list_ex (\<lambda>a. property a ''name'' = JStr agentName) agents)"
  proof
    assume h: "property response ''agents'' = JArr agents \<and> list_all (\<lambda>a. \<not> nullish a) agents"
    then have nn: "\<not> nullish response" by (cases response) auto
    from h obtain found where f: "find_agent agentName agents = Some found"
      "truthy found = list_ex (\<lambda>a. property a ''name'' = JStr agentName) agents"
      using find_agent_objects[of agents agentName] by blast
    show "checkAgentExists (Inr response) agentName
            = Inr (list_ex (\<lambda>a. property a ''name'' = JStr agentName) agents)"
      using h nn f by (simp add: checkAgentExists_def get_def)
  qed
qed

theorem agent_exists_witness:
  "property agents_two ''agents'' = JArr [JObj [(''name'', JStr ''echo'')], JObj [(''name'', JStr ''chat'')]]
   \<and> list_all (\<lambda>a. \<not> nullish a) [JObj [(''name'', JStr ''echo'')], JObj [(''name'', JStr ''chat'')]]
   \<and> checkAgentExists (Inr agents_two) ''chat'' = Inr True
   \<and> checkAgentExists (Inr agents_two) ''other'' = Inr False
   \<and> property (JObj [(''agents'', JArr [])]) ''agents'' = JArr []
   \<and> checkAgentExists (Inr (JObj [(''agents'', JArr [])])) ''chat'' = Inr False"
proof -
  have a: "property agents_two ''agents'' = JArr [JObj [(''name'', JStr ''echo'')], JObj [(''name'', JStr ''chat'')]]"
    by (simp add: agents_two_def)
  show ?thesis
    using a
      agent_exists[of _ "''chat''" agents_two "[JObj [(''name'', JStr ''echo'')], JObj [(''name'', JStr ''chat'')]]"]
      agent_exists[of _ "''other''" agents_two "[JObj [(''name'', JStr ''echo'')], JObj [(''name'', JStr ''chat'')]]"]
      agent_exists[of _ "''chat''" "JObj [(''agents'', JArr [])]" "[]"]
    by simp
qed

text \<open>
  C7 as stated fails: the agents list \<open>[null, {name: "chat"}]\<close> contains an entry named
  \<open>chat\<close>, but reading \<open>agent.name\<close> of the first entry raises, and the call raises the
  wrapping fatal error instead of returning \<open>true\<close>.
\<close>

theorem agent_exists_counterexample:
  "property agents_with_null ''agents'' = JArr [Null, JObj [(''name'', JStr ''chat'')]]
   \<and> property (JObj [(''name'', JStr ''chat'')]) ''name'' = JStr ''chat''
   \<and> checkAgentExists (Inr agents_with_null) ''chat''
       = Inl (AgentErrorFatal ''Error while checking agent existence: '' (Raised TypeError))"
  by (simp add: agents_with_null_def checkAgentExists_def get_def)

section \<open>The vector database tool\<close>

lemma length_points: "length (points fresh drawn index vs is ps) = length vs"
  by (induction vs arbitrary: drawn index) (auto split: option.splits)

lemma points_nth:
  assumes "drawn = index - (case is of None \<Rightarrow> 0 | Some xs \<Rightarrow> length xs)" and "i < length vs"
  shows "points fresh drawn index vs is ps ! i =
           \<lparr>p_id = (case at is (index + i) of
                      Some x \<Rightarrow> x
                    | None \<Rightarrow> IdStr (fresh (index + i - (case is of None \<Rightarrow> 0 | Some xs \<Rightarrow> length xs)))),
            p_vector = vs ! i,
            p_payload = (case at ps (index + i) of None \<Rightarrow> [] | Some p \<Rightarrow> p)\<rparr>"
  using assms
proof (induction vs arbitrary: drawn index i)
  case Nil
  then show ?case by simp
next
  case (Cons v vs)
  show ?case
  proof (cases i)
    case 0
    with Cons.prems show ?thesis by (simp split: option.splits)
  next
    case (Suc j)
    with Cons.prems have j: "j < length vs" by simp
    show ?thesis
    proof (cases "at is index")
      case None
      then have "Suc drawn = Suc index - (case is of None \<Rightarrow> 0 | Some xs \<Rightarrow> length xs)"
        using Cons.prems(1) by (auto simp: at_def split: option.splits if_splits)
      from Cons.IH[OF this j] show ?thesis using None Suc by (simp cong: option.case_cong)
    next
      case (Some x)
      then have "drawn = Suc index - (case is of None \<Rightarrow> 0 | Some xs \<Rightarrow> length xs)"
        using Cons.prems(1) by (auto simp: at_def split: option.splits if_splits)
      from Cons.IH[OF this j] show ?thesis using Some Suc by (simp cong: option.case_cong)
    qed
  qed
qed

text \<open>
  C10. An Insert of \<open>n\<close> vectors upserts exactly \<open>n\<close> points, in vector order: point
  \<open>i\<close> has the vector \<open>vectors[i]\<close>; its id is \<open>ids[i]\<close> when the ids array has an
  \<open>i\<close>-th entry and otherwise a UUID drawn for it (the draws are numbered by the
  points without an id, so no two points share one); its payload is \<open>payload[i]\<close>
  when the payload array has an \<open>i\<close>-th entry and otherwise the empty object. This
  upsert is what \<open>_run\<close> hands to the client for an Insert with a collection name.
\<close>

theorem insert_upserts_points:
  "\<exists>pts. insert_points fresh name vs input = Upsert name pts \<and> length pts = length vs \<and>
     (\<forall>i<length vs.
        p_vector (pts ! i) = vs ! i \<and>
        p_id (pts ! i) =
          (case at (ids input) i of
             Some x \<Rightarrow> x
           | None \<Rightarrow> IdStr (fresh (i - (case ids input of None \<Rightarrow> 0 | Some xs \<Rightarrow> length xs)))) \<and>
        p_payload (pts ! i) = (case at (payload input) i of Some p \<Rightarrow> p | None \<Rightarrow> [])) \<and>
     (action input = Insert \<and> collectionName input = Some name \<and> name \<noteq> []
        \<and> vectors input = Some vs
      \<longrightarrow> QdrantDatabaseTool_run fresh input = Inr (Upsert name pts))"
proof -
  have r: "action input = Insert \<and> collectionName input = Some name \<and> name \<noteq> []
        \<and> vectors input = Some vs
      \<longrightarrow> QdrantDatabaseTool_run fresh input
            = Inr (Upsert name (points fresh 0 0 vs (ids input) (payload input)))"
    by (simp add: QdrantDatabaseTool_run_def insert_points_def)
  have n: "\<forall>i<length vs. points fresh 0 0 vs (ids input) (payload input) ! i =
           \<lparr>p_id = (case at (ids input) i of
                      Some x \<Rightarrow> x
                    | None \<Rightarrow> IdStr (fresh (i - (case ids input of None \<Rightarrow> 0 | Some xs \<Rightarrow> length xs)))),
            p_vector = vs ! i,
            p_payload = (case at (payload input) i of None \<Rightarrow> [] | Some p \<Rightarrow> p)\<rparr>"
    using points_nth[of 0 0 "ids input" _ vs fresh "payload input"]
    by (simp cong: option.case_cong)
  have p: "\<forall>i<length vs.
        p_vector (points fresh 0 0 vs (ids input) (payload input) ! i) = vs ! i \<and>
        p_id (points fresh 0 0 vs (ids input) (payload input) ! i) =
          (case at (ids input) i of
             Some x \<Rightarrow> x
           | None \<Rightarrow> IdStr (fresh (i - (case ids input of None \<Rightarrow> 0 | Some xs \<Rightarrow> length xs)))) \<and>
        p_payload (points fresh 0 0 vs (ids input) (payload input) ! i)
          = (case at (payload input) i of Some p \<Rightarrow> p | None \<Rightarrow> [])"
    using n by (auto split: option.splits)
  show ?thesis
    apply (rule exI[of _ "points fresh 0 0 vs (ids input) (payload input)"])
    using r p length_points[of fresh 0 0 vs "ids input" "payload input"]
    by (simp add: insert_points_def)
qed

theorem insert_upserts_points_witness:
  "action insert_two = Insert \<and> collectionName insert_two = Some ''embeddings_collection''
   \<and> ''embeddings_collection'' \<noteq> [] \<and> vectors insert_two = Some [[1, 2, 3], [4, 5, 6]]
   \<and> (\<exists>pts. QdrantDatabaseTool_run example_uuid insert_two = Inr (Upsert ''embeddings_collection'' pts)
         \<and> length pts = 2
         \<and> pts ! 0 = \<lparr>p_id = IdNum 32, p_vector = [1, 2, 3], p_payload = [(''name'', JStr ''doc1'')]\<rparr>
         \<and> pts ! 1 = \<lparr>p_id = IdStr (example_uuid 0), p_vector = [4, 5, 6], p_payload = []\<rparr>)"
proof -
  have a: "action insert_two = Insert \<and> collectionName insert_two = Some ''embeddings_collection''
     \<and> ''embeddings_collection'' \<noteq> [] \<and> vectors insert_two = Some [[1, 2, 3], [4, 5, 6]]"
    by (simp add: insert_two_def)
  obtain pts where p: "QdrantDatabaseTool_run example_uuid insert_two = Inr (Upsert ''embeddings_collection'' pts)"
    "length pts = length [[1, 2, 3], [4, 5, 6::int]]"
    "\<forall>i<length [[1, 2, 3], [4, 5, 6::int]].
              p_vector (pts ! i) = [[1, 2, 3], [4, 5, 6]] ! i \<and>
              p_id (pts ! i) =
                (case at (ids insert_two) i of
                   Some x \<Rightarrow> x
                 | None \<Rightarrow> IdStr (example_uuid (i - (case ids insert_two of None \<Rightarrow> 0 | Some xs \<Rightarrow> length xs)))) \<and>
              p_payload (pts ! i) = (case at (payload insert_two) i of Some p \<Rightarrow> p | None \<Rightarrow> [])"
    using a insert_upserts_points[of example_uuid "''embeddings_collection''" "[[1, 2, 3], [4, 5, 6]]" insert_two]
    by blast
  from p(3) have "p_vector (pts ! 0) = [1, 2, 3] \<and> p_id (pts ! 0) = IdNum 32
      \<and> p_payload (pts ! 0) = [(''name'', JStr ''doc1'')]"
    by (simp add: insert_two_def at_def)
  then have p0: "pts ! 0 = \<lparr>p_id = IdNum 32, p_vector = [1, 2, 3], p_payload = [(''name'', JStr ''doc1'')]\<rparr>"
    by (cases "pts ! 0") simp
  from p(3) have "p_vector (pts ! 1) = [4, 5, 6] \<and> p_id (pts ! 1) = IdStr (example_uuid 0)
      \<and> p_payload (pts ! 1) = []"
    by (simp add: insert_two_def at_def)
  then have p1: "pts ! 1 = \<lparr>p_id = IdStr (example_uuid 0), p_vector = [4, 5, 6], p_payload = []\<rparr>"
    by (cases "pts ! 1") simp
  show ?thesis using a p(1,2) p0 p1 by auto
qed

text \<open>
  C9, as amended. Validation rejects, with a \<open>ToolInputValidationError\<close> and before
  any request to the client, an action other than ListCollections without a
  collection name, a Search without a vector array and an Insert without a vectors
  array. An input that passes these checks is delegated to the client, unless it is a
  Delete without an ids array, which \<open>_run\<close> refuses with a \<open>ToolError\<close>.
\<close>

theorem validation_before_delegation:
  "(action input \<noteq> ListCollections \<and> no_name input \<longrightarrow>
      (\<exists>m. validateInput input = Inl (ToolInputValidationError m)
           \<and> tool_run fresh input = Inl (ToolInputValidationError m)))
   \<and> (action input = Search \<and> vector input = None \<longrightarrow>
      (\<exists>m. validateInput input = Inl (ToolInputValidationError m)
           \<and> tool_run fresh input = Inl (ToolInputValidationError m)))
   \<and> (action input = Insert \<and> vectors input = None \<longrightarrow>
      (\<exists>m. validateInput input = Inl (ToolInputValidationError m)
           \<and> tool_run fresh input = Inl (ToolInputValidationError m)))
   \<and> (passes_checks input \<and> \<not> (action input = Delete \<and> ids input = None) \<longrightarrow>
      validateInput input = Inr ()
      \<and> (\<exists>call. QdrantDatabaseTool_run fresh input = Inr call \<and> tool_run fresh input = Inr call))
   \<and> (passes_checks input \<and> action input = Delete \<and> ids input = None \<longrightarrow>
      validateInput input = Inr ()
      \<and> QdrantDatabaseTool_run fresh input
          = Inl (ToolError ''Collection name and ids are required for Qdrant Delete action'')
      \<and> tool_run fresh input = QdrantDatabaseTool_run fresh input)"
proof (intro conjI; rule impI)
  assume "action input \<noteq> ListCollections \<and> no_name input"
  then show "\<exists>m. validateInput input = Inl (ToolInputValidationError m)
           \<and> tool_run fresh input = Inl (ToolInputValidationError m)"
    by (simp add: tool_run_def validateInput_def)
next
  assume "action input = Search \<and> vector input = None"
  then show "\<exists>m. validateInput input = Inl (ToolInputValidationError m)
           \<and> tool_run fresh input = Inl (ToolInputValidationError m)"
    by (simp add: tool_run_def validateInput_def)
next
  assume "action input = Insert \<and> vectors input = None"
  then show "\<exists>m. validateInput input = Inl (ToolInputValidationError m)
           \<and> tool_run fresh input = Inl (ToolInputValidationError m)"
    by (simp add: tool_run_def validateInput_def)
next
  assume h: "passes_checks input \<and> \<not> (action input = Delete \<and> ids input = None)"
  then have v: "validateInput input = Inr ()"
    by (auto simp: passes_checks_def validateInput_def)
  have "\<exists>call. QdrantDatabaseTool_run fresh input = Inr call"
    using h
    by (cases "action input")
      (auto simp: QdrantDatabaseTool_run_def passes_checks_def no_name_def split: option.splits)
  then show "validateInput input = Inr ()
      \<and> (\<exists>call. QdrantDatabaseTool_run fresh input = Inr call \<and> tool_run fresh input = Inr call)"
    using v by (auto simp: tool_run_def)
next
  assume h: "passes_checks input \<and> action input = Delete \<and> ids input = None"
  then have v: "validateInput input = Inr ()"
    by (auto simp: passes_checks_def validateInput_def)
  have "QdrantDatabaseTool_run fresh input
          = Inl (ToolError ''Collection name and ids are required for Qdrant Delete action'')"
    using h
    by (auto simp: QdrantDatabaseTool_run_def passes_checks_def no_name_def split: option.splits)
  then show "validateInput input = Inr ()
      \<and> QdrantDatabaseTool_run fresh input
          = Inl (ToolError ''Collection name and ids are required for Qdrant Delete action'')
      \<and> tool_run fresh input = QdrantDatabaseTool_run fresh input"
    using v by (simp add: tool_run_def)
qed

text \<open>
  C9 as stated fails: a Delete with a collection name and no ids array passes the
  checks of the validation and is not delegated.
\<close>

theorem validation_before_delegation_counterexample:
  "passes_checks delete_without_ids
   \<and> validateInput delete_without_ids = Inr ()
   \<and> QdrantDatabaseTool_run example_uuid delete_without_ids
       = Inl (ToolError ''Collection name and ids are required for Qdrant Delete action'')
   \<and> tool_run example_uuid delete_without_ids
       = Inl (ToolError ''Collection name and ids are required for Qdrant Delete action'')"
  by (simp add: passes_checks_def delete_without_ids_def validateInput_def no_name_def tool_run_def
      QdrantDatabaseTool_run_def)

theorem validation_before_delegation_witness:
  "action info_without_name \<noteq> ListCollections \<and> no_name info_without_name
   \<and> tool_run example_uuid info_without_name = Inl (ToolInputValidationError
        ''Collection name is required for GetCollectionInfo, Search, Insert, and Delete actions.'')
   \<and> action search_without_vector = Search \<and> vector search_without_vector = None
   \<and> tool_run example_uuid search_without_vector
        = Inl (ToolInputValidationError ''Vector is required for Search action.'')
   \<and> action insert_without_vectors = Insert \<and> vectors insert_without_vectors = None
   \<and> tool_run example_uuid insert_without_vectors
        = Inl (ToolInputValidationError ''Vectors are required for Insert action.'')
   \<and> passes_checks insert_two \<and> action insert_two \<noteq> Delete
   \<and> (\<exists>call. tool_run example_uuid insert_two = Inr call)
   \<and> passes_checks delete_without_ids \<and> action delete_without_ids = Delete
   \<and> ids delete_without_ids = None
   \<and> tool_run example_uuid delete_without_ids
       = Inl (ToolError ''Collection name and ids are required for Qdrant Delete action'')"
proof -
  have a: "action info_without_name \<noteq> ListCollections \<and> no_name info_without_name"
    by (simp add: info_without_name_def no_name_def)
  have a': "validateInput info_without_name = Inl (ToolInputValidationError
        ''Collection name is required for GetCollectionInfo, Search, Insert, and Delete actions.'')"
    by (simp add: info_without_name_def validateInput_def no_name_def)
  have b: "action search_without_vector = Search \<and> vector search_without_vector = None"
    by (simp add: search_without_vector_def)
  have b': "validateInput search_without_vector
      = Inl (ToolInputValidationError ''Vector is required for Search action.'')"
    by (simp add: search_without_vector_def validateInput_def no_name_def)
  have c: "action insert_without_vectors = Insert \<and> vectors insert_without_vectors = None"
    by (simp add: insert_without_vectors_def)
  have c': "validateInput insert_without_vectors
      = Inl (ToolInputValidationError ''Vectors are required for Insert action.'')"
    by (simp add: insert_without_vectors_def validateInput_def no_name_def)
  have d: "passes_checks insert_two \<and> \<not> (action insert_two = Delete \<and> ids insert_two = None)"
    by (simp add: insert_two_def passes_checks_def no_name_def)
  have d': "action insert_two \<noteq> Delete" by (simp add: insert_two_def)
  have e: "passes_checks delete_without_ids \<and> action delete_without_ids = Delete
     \<and> ids delete_without_ids = None"
    by (simp add: delete_without_ids_def passes_checks_def no_name_def)
  from a validation_before_delegation[of info_without_name example_uuid]
  obtain m1 where "validateInput info_without_name = Inl (ToolInputValidationError m1)"
    "tool_run example_uuid info_without_name = Inl (ToolInputValidationError m1)" by blast
  with a' have r1: "tool_run example_uuid info_without_name = Inl (ToolInputValidationError
        ''Collection name is required for GetCollectionInfo, Search, Insert, and Delete actions.'')"
    by simp
  from b validation_before_delegation[of search_without_vector example_uuid]
  obtain m2 where "validateInput search_without_vector = Inl (ToolInputValidationError m2)"
    "tool_run example_uuid search_without_vector = Inl (ToolInputValidationError m2)" by blast
  with b' have r2: "tool_run example_uuid search_without_vector
        = Inl (ToolInputValidationError ''Vector is required for Search action.'')"
    by simp
  from c validation_before_delegation[of insert_without_vectors example_uuid]
  obtain m3 where "validateInput insert_without_vectors = Inl (ToolInputValidationError m3)"
    "tool_run example_uuid insert_without_vectors = Inl (ToolInputValidationError m3)" by blast
  with c' have r3: "tool_run example_uuid insert_without_vectors
        = Inl (ToolInputValidationError ''Vectors are required for Insert action.'')"
    by simp
  from d validation_before_delegation[of insert_two example_uuid]
  have r4: "\<exists>call. tool_run example_uuid insert_two = Inr call" by blast
  from e validation_before_delegation[of delete_without_ids example_uuid]
  have r5: "tool_run example_uuid delete_without_ids
       = Inl (ToolError ''Collection name and ids are required for Qdrant Delete action'')"
    by simp
  from a b c d d' e r1 r2 r3 r4 r5 show ?thesis by blast
qed

end
